theory Spec2Isabelle
  imports Main "HOL-Library.Word"
begin

unbundle bit_operations_syntax

section \<open>hdb: a hash database over three stdio streams\<close>

text \<open>
  The development embeds \<^verbatim>\<open>src/hdb.h\<close>. Standing assumptions of the embedding:
  \<^item> a stdio stream is a byte sequence with a position; buffering is transparent, so
    every call acts on the file contents at once, and \<^verbatim>\<open>fsync\<close> changes nothing;
  \<^item> the background thread only calls \<^verbatim>\<open>fsync\<close> and is left out;
  \<^item> \<^verbatim>\<open>malloc\<close>, \<^verbatim>\<open>realloc\<close> and \<^verbatim>\<open>fopen\<close> succeed, and a read or write fails only
    where its arguments make it fail (end of file, a negative offset);
  \<^item> objects are stored little-endian, \<^verbatim>\<open>int\<close> has 32 bits, \<^verbatim>\<open>long\<close>, \<^verbatim>\<open>size_t\<close> and
    \<^verbatim>\<open>off_t\<close> have 64 bits, and conversions between integer types wrap;
  \<^item> an automatic variable that is read before anything was stored in it holds an
    arbitrary value, which the embedding takes as an explicit argument.
\<close>

subsection \<open>Bytes and machine words\<close>

type_synonym byte = "8 word"
type_synonym u32 = "32 word"
type_synonym u64 = "64 word"
type_synonym c_int = "32 word"

text \<open>
  The object representation of an integer: its bytes, least significant first, and the
  value that a sequence of bytes stands for.
\<close>

fun word_bytes :: "nat \<Rightarrow> 'a::len word \<Rightarrow> byte list" where
  "word_bytes 0 w = []"
| "word_bytes (Suc n) w = ucast w # word_bytes n (drop_bit 8 w)"

definition to_bytes :: "'a::len word \<Rightarrow> byte list" where
  "to_bytes w = word_bytes (LENGTH('a) div 8) w"

fun from_bytes :: "byte list \<Rightarrow> 'a::len word" where
  "from_bytes [] = 0"
| "from_bytes (b # bs) = ucast b OR push_bit 8 (from_bytes bs)"

subsection \<open>Streams\<close>

record stream =
  bytes :: "byte list"
  pos :: nat

datatype whence = SEEK_SET | SEEK_CUR | SEEK_END

text \<open>
  \<^verbatim>\<open>fseek\<close> takes a \<^verbatim>\<open>long\<close>. A seek whose target is negative fails and leaves the
  position where it was; a seek beyond the end of the file succeeds.
\<close>

definition fseek :: "stream \<Rightarrow> int \<Rightarrow> whence \<Rightarrow> stream" where
  "fseek f off w =
     (let target = (case w of SEEK_SET \<Rightarrow> off
                            | SEEK_CUR \<Rightarrow> int (pos f) + off
                            | SEEK_END \<Rightarrow> int (length (bytes f)) + off)
      in if target < 0 then f else f\<lparr>pos := nat target\<rparr>)"

definition ftell :: "stream \<Rightarrow> nat" where
  "ftell f = pos f"

text \<open>\<^verbatim>\<open>fread(buf, 1, n, f)\<close>: the bytes delivered, at most \<open>n\<close>, and the stream after them.\<close>

definition fread :: "stream \<Rightarrow> nat \<Rightarrow> byte list \<times> stream" where
  "fread f n =
     (let got = take n (drop (pos f) (bytes f))
      in (got, f\<lparr>pos := pos f + length got\<rparr>))"

text \<open>
  \<^verbatim>\<open>fread(&x, sizeof x, 1, f)\<close> into a variable that held \<open>old\<close>: the bytes delivered
  replace the first bytes of the variable, the others stay.
\<close>

definition fread_word :: "stream \<Rightarrow> 'a::len word \<Rightarrow> 'a word \<times> stream" where
  "fread_word f old =
     (let (got, f') = fread f (LENGTH('a) div 8)
      in (from_bytes (got @ drop (length got) (to_bytes old)), f'))"

text \<open>
  \<^verbatim>\<open>fwrite(buf, 1, n, f)\<close>: nothing happens for no bytes; a write beyond the end of the
  file fills the gap with zero bytes.
\<close>

definition fwrite :: "stream \<Rightarrow> byte list \<Rightarrow> stream" where
  "fwrite f bs =
     (if bs = [] then f
      else f\<lparr>bytes := take (pos f) (bytes f @ replicate (pos f - length (bytes f)) 0)
                         @ bs @ drop (pos f + length bs) (bytes f),
              pos := pos f + length bs\<rparr>)"

definition fwrite_word :: "stream \<Rightarrow> 'a::len word \<Rightarrow> stream" where
  "fwrite_word f w = fwrite f (to_bytes w)"

text \<open>
  \<^verbatim>\<open>ftruncate(fileno(f), n)\<close>: fails for a negative \<open>n\<close>, cuts or zero-extends the file
  otherwise; the position of the stream stays.
\<close>

definition ftruncate :: "stream \<Rightarrow> int \<Rightarrow> stream" where
  "ftruncate f n =
     (if n < 0 then f
      else f\<lparr>bytes := take (nat n) (bytes f @ replicate (nat n - length (bytes f)) 0)\<rparr>)"

subsection \<open>The handle\<close>

text \<open>
  \<^verbatim>\<open>struct hdb\<close>. The list \<open>deleted_blocks_array\<close> holds the first
  \<^verbatim>\<open>deleted_blocks_array_size\<close> elements of the C array, so the size is its length.
\<close>

record hdb =
  hash_file :: stream
  data_file :: stream
  deleted_blocks :: stream
  deleted_blocks_array :: "c_int list"

datatype error = NotFound | Overrun

text \<open>
  The values that the automatic variables of \<^verbatim>\<open>db_get\<close> and \<^verbatim>\<open>db_delete\<close> hold before
  anything is read into them: \<^verbatim>\<open>stored_hash\<close>, \<^verbatim>\<open>position\<close>, \<^verbatim>\<open>length\<close>, for each
  round \<open>i\<close> of the loop of \<^verbatim>\<open>db_delete\<close> its \<^verbatim>\<open>temp_hash\<close>, \<^verbatim>\<open>temp_position\<close> and
  \<^verbatim>\<open>temp_length\<close>, and the bytes of the block that \<^verbatim>\<open>malloc\<close> returns.
\<close>

record locals =
  u_stored_hash :: u32
  u_position :: u64
  u_length :: u64
  u_temp :: "nat \<Rightarrow> u32 \<times> u64 \<times> u64"
  u_buffer :: "nat \<Rightarrow> byte"

subsection \<open>hash_function\<close>

definition prime2 :: u32 where
  "prime2 = 37"

text \<open>The loop of \<^verbatim>\<open>hash_function\<close> over the bytes still to come, with \<open>hash\<close> and \<open>prime\<close>.\<close>

fun hash_loop :: "byte list \<Rightarrow> u32 \<Rightarrow> u32 \<Rightarrow> u32" where
  "hash_loop [] hash prime = hash"
| "hash_loop (d # ds) hash prime =
     hash_loop ds ((hash * prime) XOR (ucast d * prime2)) ((prime * prime2) mod 65521)"

definition hash_function :: "byte list \<Rightarrow> u32" where
  "hash_function data = hash_loop data 0 31"

text \<open>
  The hash as the specification words it, on natural numbers: \<open>h\<close> starts at 0; for
  each byte \<open>b\<close> in order \<open>h := (h * p1) XOR (b * p2)\<close> in 32-bit arithmetic, then
  \<open>p1 := (p1 * p2) mod 65521\<close>; \<open>p1\<close> starts at 31 and \<open>p2\<close> is 37 throughout.
\<close>

definition reference_step :: "nat \<times> nat \<Rightarrow> nat \<Rightarrow> nat \<times> nat" where
  "reference_step s b =
     (case s of (h, p1) \<Rightarrow>
        (((h * p1) mod 2 ^ 32) XOR ((b * 37) mod 2 ^ 32), (p1 * 37) mod 65521))"

definition reference_hash :: "nat list \<Rightarrow> nat" where
  "reference_hash bs = fst (foldl reference_step (0, 31) bs)"

subsection \<open>The free list on disk\<close>

text \<open>\<^verbatim>\<open>encode_deleted_blocks_array\<close>: the array goes to the start of the file, which is not cut.\<close>

definition encode_deleted_blocks_array :: "hdb \<Rightarrow> hdb" where
  "encode_deleted_blocks_array db =
     (let f = fseek (deleted_blocks db) 0 SEEK_SET;
          f = fwrite f (concat (map to_bytes (deleted_blocks_array db)))
      in db\<lparr>deleted_blocks := f\<rparr>)"

text \<open>Cutting the bytes read into \<open>n\<close> elements of four bytes.\<close>

fun decode_ints :: "nat \<Rightarrow> byte list \<Rightarrow> c_int list" where
  "decode_ints 0 bs = []"
| "decode_ints (Suc n) bs = from_bytes (take 4 bs) # decode_ints n (drop 4 bs)"

text \<open>\<^verbatim>\<open>decode_deleted_blocks_array\<close>: the size is the length of the file divided by four.\<close>

definition decode_deleted_blocks_array :: "hdb \<Rightarrow> hdb" where
  "decode_deleted_blocks_array db =
     (let f = fseek (deleted_blocks db) 0 SEEK_END;
          deleted_blocks_array_size = ftell f div 4;
          f = fseek f 0 SEEK_SET;
          (got, f) = fread f (deleted_blocks_array_size * 4)
      in db\<lparr>deleted_blocks := f,
             deleted_blocks_array := decode_ints deleted_blocks_array_size got\<rparr>)"

subsection \<open>db_open and db_close\<close>

text \<open>
  The three paths on disk: \<open>None\<close> where there is no file yet. \<^verbatim>\<open>fopen\<close> with
  \<^verbatim>\<open>"rb+"\<close> opens an existing file as it is, and \<^verbatim>\<open>"wb+"\<close> creates an empty one.
\<close>

record disk =
  hash_path :: "byte list option"
  data_path :: "byte list option"
  deleted_path :: "byte list option"

definition fopen :: "byte list option \<Rightarrow> stream" where
  "fopen p = (case p of Some bs \<Rightarrow> \<lparr>bytes = bs, pos = 0\<rparr>
                        | None \<Rightarrow> \<lparr>bytes = [], pos = 0\<rparr>)"

definition db_open :: "disk \<Rightarrow> hdb" where
  "db_open d =
     decode_deleted_blocks_array
       \<lparr>hash_file = fopen (hash_path d), data_file = fopen (data_path d),
        deleted_blocks = fopen (deleted_path d), deleted_blocks_array = []\<rparr>"

text \<open>
  \<^verbatim>\<open>db_close\<close>: the array pointer is null only when the array is empty, and encoding
  an empty array writes nothing, so the test for null is not modelled.
\<close>

definition db_close :: "hdb \<Rightarrow> disk" where
  "db_close db =
     (let db = encode_deleted_blocks_array db
      in \<lparr>hash_path = Some (bytes (hash_file db)),
          data_path = Some (bytes (data_file db)),
          deleted_path = Some (bytes (deleted_blocks db))\<rparr>)"

subsection \<open>db_get\<close>

definition BLOCK_SIZE :: nat where
  "BLOCK_SIZE = 1024"

text \<open>
  The caller's buffer \<open>value\<close> is a list as long as the buffer. Bytes that \<^verbatim>\<open>fread\<close>
  delivers go to \<open>value + total_read\<close>.
\<close>

definition store :: "byte list \<Rightarrow> nat \<Rightarrow> byte list \<Rightarrow> byte list" where
  "store value off got = take off value @ got @ drop (off + length got) value"

text \<open>
  The reading loop of \<^verbatim>\<open>db_get\<close>. \<open>total_read\<close> advances by \<open>to_read\<close> whatever
  \<^verbatim>\<open>fread\<close> delivered. Bytes delivered past the end of the caller's buffer are
  undefined behaviour in C: the model stops with \<open>Overrun\<close>.
\<close>

function read_loop :: "stream \<Rightarrow> byte list \<Rightarrow> nat \<Rightarrow> nat \<Rightarrow> (error + byte list) \<times> stream" where
  "read_loop df value total_read len =
     (if total_read < len then
        (let to_read = (if len - total_read > BLOCK_SIZE then BLOCK_SIZE else len - total_read);
             (got, df') = fread df to_read
         in if got \<noteq> [] \<and> length value < total_read + length got then (Inl Overrun, df')
            else read_loop df' (store value total_read got) (total_read + to_read) len)
      else (Inr value, df))"
  by pat_completeness auto
termination
  by (relation "measure (\<lambda>(df, value, total_read, len). len - total_read)")
     (auto simp: BLOCK_SIZE_def)

declare read_loop.simps [simp del]

text \<open>
  \<^verbatim>\<open>db_get\<close> returns \<open>-1\<close> (\<open>Inl NotFound\<close>) or 0 with the buffer and \<^verbatim>\<open>*value_length\<close>.
  \<open>u\<close> gives what \<^verbatim>\<open>stored_hash\<close>, \<^verbatim>\<open>position\<close> and \<^verbatim>\<open>length\<close> held before the reads.
\<close>

definition db_get :: "hdb \<Rightarrow> byte list \<Rightarrow> byte list \<Rightarrow> locals \<Rightarrow> (error + byte list \<times> nat) \<times> hdb" where
  "db_get db key value u =
     (let hash = hash_function key;
          hf = fseek (hash_file db) (uint (hash mod 128) * 4) SEEK_SET;
          (stored_hash, hf) = fread_word hf (u_stored_hash u)
      in if stored_hash \<noteq> hash then (Inl NotFound, db\<lparr>hash_file := hf\<rparr>)
         else
          (let hf = fseek hf (uint (hash mod 128) * 8 * 2) SEEK_SET;
               (position, hf) = fread_word hf (u_position u);
               (len, hf) = fread_word hf (u_length u);
               df = fseek (data_file db) (sint position) SEEK_SET;
               (r, df) = read_loop df value 0 (unat len)
           in (case r of Inl e \<Rightarrow> Inl e | Inr v \<Rightarrow> Inr (v, unat len),
               db\<lparr>hash_file := hf, data_file := df\<rparr>)))"

subsection \<open>db_delete\<close>

text \<open>
  One round of the loop that rewrites the directory: \<open>t\<close> gives what \<^verbatim>\<open>temp_hash\<close>,
  \<^verbatim>\<open>temp_position\<close> and \<^verbatim>\<open>temp_length\<close> held before the reads of this round. The
  offset \<^verbatim>\<open>-2 * sizeof(uint64_t)\<close> is \<open>-16\<close> as a \<^verbatim>\<open>long\<close>.
\<close>

definition rewrite_round :: "stream \<Rightarrow> u64 \<Rightarrow> u64 \<Rightarrow> u32 \<times> u64 \<times> u64 \<Rightarrow> stream" where
  "rewrite_round hf position len t =
     (let (temp_hash, hf) = fread_word hf (fst t)
      in if temp_hash = 0 then hf
         else
          (let (temp_position, hf) = fread_word hf (fst (snd t));
               (temp_length, hf) = fread_word hf (snd (snd t))
           in if temp_position > position then
                (let temp_position = temp_position - len;
                     hf = fseek hf (- 16) SEEK_CUR;
                     hf = fwrite_word hf temp_position;
                     hf = fseek hf 8 SEEK_CUR
                 in hf)
              else hf))"

text \<open>\<^verbatim>\<open>for (int i = 0; i < 128; ++i)\<close>\<close>

function rewrite_loop :: "nat \<Rightarrow> stream \<Rightarrow> u64 \<Rightarrow> u64 \<Rightarrow> (nat \<Rightarrow> u32 \<times> u64 \<times> u64) \<Rightarrow> stream" where
  "rewrite_loop i hf position len t =
     (if i < 128 then rewrite_loop (i + 1) (rewrite_round hf position len (t i)) position len t
      else hf)"
  by pat_completeness auto
termination
  by (relation "measure (\<lambda>(i, hf, position, len, t). 128 - i)") auto

declare rewrite_loop.simps [simp del]

text \<open>
  \<^verbatim>\<open>db_delete\<close> returns \<open>-1\<close> (\<open>Inl NotFound\<close>) or 0. The array element is an \<^verbatim>\<open>int\<close>:
  the assignment keeps the low 32 bits of \<open>position\<close>.
\<close>

definition db_delete :: "hdb \<Rightarrow> byte list \<Rightarrow> locals \<Rightarrow> (error + unit) \<times> hdb" where
  "db_delete db key u =
     (let hash = hash_function key;
          hf = fseek (hash_file db) (uint (hash mod 128) * 4) SEEK_SET;
          (stored_hash, hf) = fread_word hf (u_stored_hash u)
      in if stored_hash \<noteq> hash then (Inl NotFound, db\<lparr>hash_file := hf\<rparr>)
         else
          (let hf = fseek hf (uint (hash mod 128) * 4) SEEK_SET;
               hf = fwrite_word hf (0 :: u32);
               hf = fseek hf (uint (hash mod 128) * 8 * 2) SEEK_SET;
               (position, hf) = fread_word hf (u_position u);
               (len, hf) = fread_word hf (u_length u);
               deleted_blocks_array = deleted_blocks_array db @ [ucast position];
               df = fseek (data_file db) (sint (position + len)) SEEK_SET;
               remaining_size = (of_nat (ftell df) - (position + len) :: u64);
               (got, df) = fread df (unat remaining_size);
               buffer = got @ map (u_buffer u) [length got ..< unat remaining_size];
               df = fseek df (sint position) SEEK_SET;
               df = fwrite df buffer;
               df = ftruncate df (sint (position + remaining_size));
               hf = fseek hf 0 SEEK_SET;
               hf = rewrite_loop 0 hf position len (u_temp u)
           in (Inr (), db\<lparr>hash_file := hf, data_file := df,
                           deleted_blocks_array := deleted_blocks_array\<rparr>)))"

subsection \<open>db_put\<close>

text \<open>
  \<^verbatim>\<open>db_put\<close> always returns 0. \<open>u\<close> is what its \<^verbatim>\<open>stored_hash\<close> held before the read,
  \<open>ud\<close> are the variables of the \<^verbatim>\<open>db_delete\<close> it calls. An array element read back
  into the \<^verbatim>\<open>uint64_t\<close> \<open>position\<close> is sign-extended.
\<close>

definition db_put :: "hdb \<Rightarrow> byte list \<Rightarrow> byte list \<Rightarrow> u32 \<Rightarrow> locals \<Rightarrow> (error + unit) \<times> hdb" where
  "db_put db key value u ud =
     (let hash = hash_function key;
          hf = fseek (hash_file db) (uint (hash mod 128) * 4) SEEK_SET;
          (stored_hash, hf) = fread_word hf u;
          db = db\<lparr>hash_file := hf\<rparr>;
          db = (if stored_hash = hash then snd (db_delete db key ud) else db);
          hf = fseek (hash_file db) (uint (hash mod 128) * 4) SEEK_SET;
          hf = fwrite_word hf hash;
          (position, db) =
            (if length (deleted_blocks_array db) > 0 then
               (scast (last (deleted_blocks_array db)) :: u64,
                db\<lparr>deleted_blocks_array := butlast (deleted_blocks_array db)\<rparr>)
             else
               (let df = fseek (data_file db) 0 SEEK_END
                in (of_nat (ftell df), db\<lparr>data_file := df\<rparr>)));
          df = fwrite (data_file db) value;
          hf = fseek hf (uint (hash mod 128) * 8 * 2) SEEK_SET;
          hf = fwrite_word hf position;
          hf = fwrite_word hf (of_nat (length value) :: u64)
      in (Inr (), db\<lparr>hash_file := hf, data_file := df\<rparr>))"

subsection \<open>A driver and the inputs of the concrete runs\<close>

text \<open>No file exists yet at any of the three paths.\<close>

definition no_files :: disk where
  "no_files = \<lparr>hash_path = None, data_path = None, deleted_path = None\<rparr>"

text \<open>Every uninitialised variable happens to hold zero.\<close>

definition zeroed :: locals where
  "zeroed = \<lparr>u_stored_hash = 0, u_position = 0, u_length = 0,
              u_temp = (\<lambda>i. (0, 0, 0)), u_buffer = (\<lambda>i. 0)\<rparr>"

text \<open>
  A caller that issues puts and deletes one after the other on one handle, every
  uninitialised variable holding zero.
\<close>

datatype call = Put "byte list" "byte list" | Delete "byte list"

fun calls :: "hdb \<Rightarrow> call list \<Rightarrow> hdb" where
  "calls db [] = db"
| "calls db (Put key value # cs) = calls (snd (db_put db key value 0 zeroed)) cs"
| "calls db (Delete key # cs) = calls (snd (db_delete db key zeroed)) cs"

text \<open>
  The handles of the concrete runs, each from a database created on empty paths. The
  keys are \<^verbatim>\<open>"-"\<close> (45, bucket 1), \<^verbatim>\<open>"Z"\<close> (90, bucket 2), \<^verbatim>\<open>"4"\<close> (52, bucket 4) and
  the single bytes 7 (bucket 3), 42 (bucket 18) and 2 (bucket 74); the values are
  \<^verbatim>\<open>"abc"\<close>, \<^verbatim>\<open>"de"\<close>, \<^verbatim>\<open>"fg"\<close>, \<^verbatim>\<open>"x"\<close>, \<^verbatim>\<open>"0123456789"\<close>, \<^verbatim>\<open>"bcd"\<close>, \<^verbatim>\<open>"zz"\<close> and 74
  times \<^verbatim>\<open>"a"\<close>.
\<close>

definition one_record :: hdb where
  "one_record = calls (db_open no_files) [Put [45] [97, 98, 99]]"

definition two_records :: hdb where
  "two_records = calls one_record [Put [90] [100, 101]]"

definition two_live :: hdb where
  "two_live = calls (db_open no_files) [Put [90] [97, 98, 99], Put [45] [100, 101]]"

definition three_live :: hdb where
  "three_live = calls two_live [Put [7] [102, 103]]"

definition one_freed :: hdb where
  "one_freed = calls two_live [Delete [45]]"

definition reopened :: hdb where
  "reopened = db_open (db_close one_freed)"

definition long_record :: hdb where
  "long_record = calls (db_open no_files) [Put [42] (replicate 74 97)]"

definition compacted :: hdb where
  "compacted =
     calls (db_open no_files)
       [Put [52] [48, 49, 50, 51, 52, 53, 54, 55, 56, 57], Put [90] [98, 99, 100],
        Delete [52], Put [52] [122, 122]]"

section \<open>Properties\<close>

subsection \<open>Streams: what the calls keep\<close>

lemma bytes_fseek [simp]: "bytes (fseek f off w) = bytes f"
  by (simp add: fseek_def Let_def)

lemma bytes_fread [simp]: "bytes (snd (fread f n)) = bytes f"
  by (simp add: fread_def Let_def)

lemma bytes_fread_word [simp]: "bytes (snd (fread_word f old)) = bytes f"
  by (simp add: fread_word_def fread_def Let_def)

lemma read_loop_bytes: "bytes (snd (read_loop df v total_read len)) = bytes df"
proof (induction df v total_read len rule: read_loop.induct)
  case (1 df v total_read len)
  show ?case
  proof (cases "total_read < len")
    case False
    then show ?thesis by (subst read_loop.simps) simp
  next
    case True
    define to_read where
      "to_read = (if len - total_read > BLOCK_SIZE then BLOCK_SIZE else len - total_read)"
    obtain got df' where r: "fread df to_read = (got, df')"
      by (cases "fread df to_read")
    have b: "bytes df' = bytes df"
      using bytes_fread [of df to_read] r by simp
    show ?thesis
    proof (cases "got \<noteq> [] \<and> length v < total_read + length got")
      case over: True
      then show ?thesis
        using True r b by (subst read_loop.simps) (simp add: to_read_def Let_def)
    next
      case fits: False
      have "bytes (snd (read_loop df' (store v total_read got) (total_read + to_read) len))
              = bytes df'"
        using "1.IH" [OF True to_read_def r [symmetric] refl fits] .
      then show ?thesis
        using True r b fits by (subst read_loop.simps) (simp add: to_read_def Let_def)
    qed
  qed
qed

lemma read_loop_error: "fst (read_loop df v total_read len) \<noteq> Inl NotFound"
proof (induction df v total_read len rule: read_loop.induct)
  case (1 df v total_read len)
  show ?case
  proof (cases "total_read < len")
    case False
    then show ?thesis by (subst read_loop.simps) simp
  next
    case True
    define to_read where
      "to_read = (if len - total_read > BLOCK_SIZE then BLOCK_SIZE else len - total_read)"
    obtain got df' where r: "fread df to_read = (got, df')"
      by (cases "fread df to_read")
    show ?thesis
    proof (cases "got \<noteq> [] \<and> length v < total_read + length got")
      case over: True
      then show ?thesis
        using True r by (subst read_loop.simps) (simp add: to_read_def Let_def)
    next
      case fits: False
      have "fst (read_loop df' (store v total_read got) (total_read + to_read) len)
              \<noteq> Inl NotFound"
        using "1.IH" [OF True to_read_def r [symmetric] refl fits] .
      then show ?thesis
        using True r fits by (subst read_loop.simps) (simp add: to_read_def Let_def)
    qed
  qed
qed

subsection \<open>Evaluation on explicit streams\<close>

text \<open>
  The equations below rewrite a call only when the stream is written out, so that the
  simplifier runs a concrete call sequence step by step.
\<close>

lemma to_bytes_u64:
  "to_bytes (w :: u64) =
     [ucast w, ucast (drop_bit 8 w), ucast (drop_bit 16 w), ucast (drop_bit 24 w),
      ucast (drop_bit 32 w), ucast (drop_bit 40 w), ucast (drop_bit 48 w),
      ucast (drop_bit 56 w)]"
proof -
  have n: "LENGTH(64) div 8 = Suc (Suc (Suc (Suc (Suc (Suc (Suc (Suc 0)))))))"
    by simp
  show ?thesis
    unfolding to_bytes_def n word_bytes.simps drop_bit_drop_bit by simp
qed

lemma to_bytes_u32:
  "to_bytes (w :: u32) =
     [ucast w, ucast (drop_bit 8 w), ucast (drop_bit 16 w), ucast (drop_bit 24 w)]"
proof -
  have n: "LENGTH(32) div 8 = Suc (Suc (Suc (Suc 0)))"
    by simp
  show ?thesis
    unfolding to_bytes_def n word_bytes.simps drop_bit_drop_bit by simp
qed

lemma fseek_lit:
  "fseek \<lparr>bytes = b, pos = p\<rparr> off SEEK_SET =
     (if off < 0 then \<lparr>bytes = b, pos = p\<rparr> else \<lparr>bytes = b, pos = nat off\<rparr>)"
  "fseek \<lparr>bytes = b, pos = p\<rparr> off SEEK_CUR =
     (if int p + off < 0 then \<lparr>bytes = b, pos = p\<rparr>
      else \<lparr>bytes = b, pos = nat (int p + off)\<rparr>)"
  "fseek \<lparr>bytes = b, pos = p\<rparr> off SEEK_END =
     (if int (length b) + off < 0 then \<lparr>bytes = b, pos = p\<rparr>
      else \<lparr>bytes = b, pos = nat (int (length b) + off)\<rparr>)"
  by (simp_all add: fseek_def)

lemma ftell_lit: "ftell \<lparr>bytes = b, pos = p\<rparr> = p"
  by (simp add: ftell_def)

lemma fread_lit:
  "fread \<lparr>bytes = b, pos = p\<rparr> n =
     (take n (drop p b), \<lparr>bytes = b, pos = p + length (take n (drop p b))\<rparr>)"
  by (simp add: fread_def)

lemma fread_word_lit:
  "fread_word \<lparr>bytes = b, pos = p\<rparr> (o32 :: u32) =
     (from_bytes (take 4 (drop p b) @ drop (length (take 4 (drop p b))) (to_bytes o32)),
      \<lparr>bytes = b, pos = p + length (take 4 (drop p b))\<rparr>)"
  "fread_word \<lparr>bytes = b, pos = p\<rparr> (o64 :: u64) =
     (from_bytes (take 8 (drop p b) @ drop (length (take 8 (drop p b))) (to_bytes o64)),
      \<lparr>bytes = b, pos = p + length (take 8 (drop p b))\<rparr>)"
  by (simp_all add: fread_word_def fread_def)

lemma fwrite_lit:
  "fwrite \<lparr>bytes = b, pos = p\<rparr> bs =
     (if bs = [] then \<lparr>bytes = b, pos = p\<rparr>
      else \<lparr>bytes = take p (b @ replicate (p - length b) 0) @ bs @ drop (p + length bs) b,
             pos = p + length bs\<rparr>)"
  by (simp add: fwrite_def)

lemma ftruncate_lit:
  "ftruncate \<lparr>bytes = b, pos = p\<rparr> n =
     (if n < 0 then \<lparr>bytes = b, pos = p\<rparr>
      else \<lparr>bytes = take (nat n) (b @ replicate (nat n - length b) 0), pos = p\<rparr>)"
  by (simp add: ftruncate_def)

lemma rewrite_loop_lit:
  "i < 128 \<Longrightarrow>
   rewrite_loop i \<lparr>bytes = b, pos = p\<rparr> position len t =
     rewrite_loop (i + 1) (rewrite_round \<lparr>bytes = b, pos = p\<rparr> position len (t i))
       position len t"
  "\<not> i < 128 \<Longrightarrow>
   rewrite_loop i \<lparr>bytes = b, pos = p\<rparr> position len t = \<lparr>bytes = b, pos = p\<rparr>"
  by (subst rewrite_loop.simps, simp)+

lemma rewrite_round_lit:
  "rewrite_round \<lparr>bytes = b, pos = p\<rparr> position len t =
     (let (temp_hash, hf) = fread_word \<lparr>bytes = b, pos = p\<rparr> (fst t)
      in if temp_hash = 0 then hf
         else
          (let (temp_position, hf) = fread_word hf (fst (snd t));
               (temp_length, hf) = fread_word hf (snd (snd t))
           in if temp_position > position then
                (let temp_position = temp_position - len;
                     hf = fseek hf (- 16) SEEK_CUR;
                     hf = fwrite_word hf temp_position;
                     hf = fseek hf 8 SEEK_CUR
                 in hf)
              else hf))"
  by (simp add: rewrite_round_def)

lemma read_loop_lit:
  "total_read < len \<Longrightarrow>
   read_loop \<lparr>bytes = b, pos = p\<rparr> v total_read len =
     (let to_read = (if len - total_read > BLOCK_SIZE then BLOCK_SIZE else len - total_read);
          (got, df') = fread \<lparr>bytes = b, pos = p\<rparr> to_read
      in if got \<noteq> [] \<and> length v < total_read + length got then (Inl Overrun, df')
         else read_loop df' (store v total_read got) (total_read + to_read) len)"
  "\<not> total_read < len \<Longrightarrow>
   read_loop \<lparr>bytes = b, pos = p\<rparr> v total_read len = (Inr v, \<lparr>bytes = b, pos = p\<rparr>)"
  by (subst read_loop.simps, simp)+

lemma Suc_Suc_0: "Suc (Suc 0) = 2"
  by simp

lemma replicate_numeral: "replicate (numeral k) x = x # replicate (pred_numeral k) x"
  by (simp add: numeral_eq_Suc)

lemma uint_minus_1_u64: "uint (- 1 :: u64) = 18446744073709551615"
  by (simp add: unsigned_minus_1_eq_mask mask_eq_exp_minus_1)

lemma uint_minus_1_u32: "uint (- 1 :: u32) = 4294967295"
  by (simp add: unsigned_minus_1_eq_mask mask_eq_exp_minus_1)

lemma ucast_byte_uint: "(ucast (w :: 'a::len word) :: byte) = word_of_int (uint w mod 256)"
proof -
  have "take_bit LENGTH(8) (uint w mod 256) = take_bit LENGTH(8) (uint w)"
    by (simp add: take_bit_eq_mod)
  then have "(word_of_int (uint w mod 256) :: byte) = word_of_int (uint w)"
    by (rule word_of_int_eq_iff [THEN iffD2])
  then show ?thesis
    by (simp only: ucast_eq)
qed

lemma drop_bit_uint: "uint (drop_bit n (w :: 'a::len word)) = uint w div 2 ^ n"
proof -
  have "take_bit LENGTH('a) (uint w) = uint w"
    by (rule take_bit_int_eq_self) (simp_all add: uint_lt2p)
  then show ?thesis
    unfolding unsigned_drop_bit_eq by (simp add: drop_bit_eq_div)
qed

text \<open>The bytes of a word by division, for the simplifier.\<close>

lemma to_bytes_u64_eval:
  "to_bytes (w :: u64) =
     [word_of_int (uint w mod 256), word_of_int (uint w div 2 ^ 8 mod 256),
      word_of_int (uint w div 2 ^ 16 mod 256), word_of_int (uint w div 2 ^ 24 mod 256),
      word_of_int (uint w div 2 ^ 32 mod 256), word_of_int (uint w div 2 ^ 40 mod 256),
      word_of_int (uint w div 2 ^ 48 mod 256), word_of_int (uint w div 2 ^ 56 mod 256)]"
  by (simp only: to_bytes_u64 ucast_byte_uint drop_bit_uint)

lemma to_bytes_u32_eval:
  "to_bytes (w :: u32) =
     [word_of_int (uint w mod 256), word_of_int (uint w div 2 ^ 8 mod 256),
      word_of_int (uint w div 2 ^ 16 mod 256), word_of_int (uint w div 2 ^ 24 mod 256)]"
  by (simp only: to_bytes_u32 ucast_byte_uint drop_bit_uint)

lemma zeroed_sel:
  "u_stored_hash zeroed = 0" "u_position zeroed = 0" "u_length zeroed = 0"
  "u_temp zeroed i = (0, 0, 0)" "u_buffer zeroed i = 0"
  by (simp_all add: zeroed_def)

lemmas run_simps =
  fseek_lit ftell_lit fread_lit fread_word_lit fwrite_lit ftruncate_lit
  rewrite_loop_lit rewrite_round_lit read_loop_lit to_bytes_u64_eval to_bytes_u32_eval
  uint_minus_1_u64 uint_minus_1_u32 replicate_numeral
  fwrite_word_def hash_function_def prime2_def BLOCK_SIZE_def store_def Let_def Suc_Suc_0
  zeroed_sel

lemma db_open_no_files:
  "db_open no_files =
     \<lparr>hash_file = \<lparr>bytes = [], pos = 0\<rparr>, data_file = \<lparr>bytes = [], pos = 0\<rparr>,
      deleted_blocks = \<lparr>bytes = [], pos = 0\<rparr>, deleted_blocks_array = []\<rparr>"
  by (simp add: db_open_def no_files_def fopen_def decode_deleted_blocks_array_def run_simps)

subsection \<open>The hash function\<close>

lemma unat_ucast_byte: "unat (ucast (d::byte) :: u32) = unat d"
proof -
  have "unat d < 2 ^ 32"
    using unsigned_less [of d, where 'a = nat] by simp
  then show ?thesis
    by (simp add: unsigned_ucast_eq take_bit_nat_eq_self)
qed

lemma hash_loop_reference:
  "unat prime < 65521 \<Longrightarrow>
   unat (hash_loop ds hash prime)
     = fst (foldl reference_step (unat hash, unat prime) (map unat ds))"
proof (induction ds arbitrary: hash prime)
  case Nil
  then show ?case by simp
next
  case (Cons d ds)
  have small: "unat prime * 37 < 2 ^ 32"
    using Cons.prems by simp
  have p: "unat ((prime * prime2) mod 65521) = (unat prime * 37) mod 65521"
    using small by (simp add: prime2_def unat_mod unat_word_ariths)
  have h: "unat ((hash * prime) XOR (ucast d * prime2))
             = ((unat hash * unat prime) mod 2 ^ 32) XOR ((unat d * 37) mod 2 ^ 32)"
    by (simp add: unsigned_xor_eq unat_word_ariths unat_ucast_byte prime2_def)
  have "unat ((prime * prime2) mod 65521) < 65521"
    by (simp add: p)
  from Cons.IH [OF this] show ?case
    by (simp add: reference_step_def p h)
qed

text \<open>
  C5. For every byte sequence, \<^verbatim>\<open>hash_function\<close> computes the reference hash of the
  specification: \<open>h\<close> from 0, \<open>h := (h * p1) XOR (b * p2)\<close> in 32-bit arithmetic for each
  byte in order, then \<open>p1 := (p1 * p2) mod 65521\<close>, from \<open>p1 = 31\<close> with \<open>p2 = 37\<close>.
\<close>

theorem hash_function_reference:
  "unat (hash_function data) = reference_hash (map unat data)"
  using hash_loop_reference [of 31 data 0]
  by (simp add: hash_function_def reference_hash_def)

subsection \<open>db_get and the state\<close>

text \<open>
  C10. \<^verbatim>\<open>db_get\<close> never mutates the database: whatever it returns, the bytes of the
  directory file and of the data file, the stream of the free-list file and the
  in-memory free list are as before the call.
\<close>

theorem db_get_no_mutation:
  "bytes (hash_file (snd (db_get db key v u))) = bytes (hash_file db) \<and>
   bytes (data_file (snd (db_get db key v u))) = bytes (data_file db) \<and>
   deleted_blocks (snd (db_get db key v u)) = deleted_blocks db \<and>
   deleted_blocks_array (snd (db_get db key v u)) = deleted_blocks_array db"
  by (simp add: db_get_def Let_def case_prod_beta read_loop_bytes)

text \<open>\<^verbatim>\<open>db_get\<close> reports \<open>NotFound\<close> exactly when the hash it reads differs from the key's.\<close>

lemma db_get_NotFound_iff:
  "fst (db_get db key v u) = Inl NotFound \<longleftrightarrow>
   fst (fread_word (fseek (hash_file db) (uint (hash_function key mod 128) * 4) SEEK_SET)
          (u_stored_hash u)) \<noteq> hash_function key"
  using read_loop_error
  by (auto simp: db_get_def Let_def case_prod_beta split: sum.splits)

text \<open>
  \<^verbatim>\<open>db_delete\<close> decides in the same way, and every call that returns 0 has appended one
  element to the free list.
\<close>

lemma db_delete_result:
  "fst (db_delete db key u) =
     (if fst (fread_word (fseek (hash_file db) (uint (hash_function key mod 128) * 4) SEEK_SET)
                (u_stored_hash u)) \<noteq> hash_function key
      then Inl NotFound else Inr ())"
  by (simp add: db_delete_def Let_def case_prod_beta)

lemma db_delete_array_length:
  "length (deleted_blocks_array (snd (db_delete db key u))) =
     length (deleted_blocks_array db) + (if fst (db_delete db key u) = Inr () then 1 else 0)"
  by (simp add: db_delete_def Let_def case_prod_beta)

subsection \<open>Words on a stream\<close>

lemma length_to_bytes_u64 [simp]: "length (to_bytes (w :: u64)) = 8"
  by (simp add: to_bytes_u64)

lemma length_to_bytes_u32 [simp]: "length (to_bytes (w :: u32)) = 4"
  by (simp add: to_bytes_u32)

subsection \<open>Concrete runs, call by call\<close>

text \<open>
  Each equation below is one call of \<^verbatim>\<open>db_put\<close> or \<^verbatim>\<open>db_delete\<close> on a handle that is
  written out, evaluated by the simplifier.
\<close>

lemma run_a_1:
  "db_put
     \<lparr>hash_file = \<lparr>bytes = [], pos = 0\<rparr>,
      data_file = \<lparr>bytes = [], pos = 0\<rparr>,
      deleted_blocks = \<lparr>bytes = [], pos = 0\<rparr>,
      deleted_blocks_array = []\<rparr>
     [104, 120] [97, 98, 99] 0 zeroed =
     (Inr (),
      \<lparr>hash_file = \<lparr>bytes = [0, 0, 0, 0, 0, 0, 0, 0, 3, 0, 0, 0, 0, 0, 0, 0],
         pos = 16\<rparr>,
        data_file = \<lparr>bytes = [97, 98, 99], pos = 3\<rparr>,
        deleted_blocks = \<lparr>bytes = [], pos = 0\<rparr>,
        deleted_blocks_array = []\<rparr>)"
  by (simp add: db_put_def db_delete_def run_simps)

lemma run_b_1:
  "db_put
     \<lparr>hash_file = \<lparr>bytes = [], pos = 0\<rparr>,
      data_file = \<lparr>bytes = [], pos = 0\<rparr>,
      deleted_blocks = \<lparr>bytes = [], pos = 0\<rparr>,
      deleted_blocks_array = []\<rparr>
     [45] [97, 98, 99] 0 zeroed =
     (Inr (),
      \<lparr>hash_file = \<lparr>bytes = [0, 0, 0, 0, 129, 6, 0, 0, 0, 0, 0, 0, 0, 0, 0, 0,
         0, 0, 0, 0, 0, 0, 0, 0, 3, 0, 0, 0, 0, 0, 0, 0], pos = 32\<rparr>,
        data_file = \<lparr>bytes = [97, 98, 99], pos = 3\<rparr>,
        deleted_blocks = \<lparr>bytes = [], pos = 0\<rparr>,
        deleted_blocks_array = []\<rparr>)"
  by (simp add: db_put_def db_delete_def run_simps)

lemma run_b_2:
  "db_put
     \<lparr>hash_file = \<lparr>bytes = [0, 0, 0, 0, 129, 6, 0, 0, 0, 0, 0, 0, 0, 0, 0, 0,
        0, 0, 0, 0, 0, 0, 0, 0, 3, 0, 0, 0, 0, 0, 0, 0], pos = 32\<rparr>,
      data_file = \<lparr>bytes = [97, 98, 99], pos = 3\<rparr>,
      deleted_blocks = \<lparr>bytes = [], pos = 0\<rparr>,
      deleted_blocks_array = []\<rparr>
     [90] [100, 101] 0 zeroed =
     (Inr (),
      \<lparr>hash_file = \<lparr>bytes = [0, 0, 0, 0, 129, 6, 0, 0, 2, 13, 0, 0, 0, 0, 0,
         0, 0, 0, 0, 0, 0, 0, 0, 0, 3, 0, 0, 0, 0, 0, 0, 0, 3, 0, 0, 0, 0, 0, 0, 0, 2, 0, 0,
         0, 0, 0, 0, 0], pos = 48\<rparr>,
        data_file = \<lparr>bytes = [97, 98, 99, 100, 101], pos = 5\<rparr>,
        deleted_blocks = \<lparr>bytes = [], pos = 0\<rparr>,
        deleted_blocks_array = []\<rparr>)"
  by (simp add: db_put_def db_delete_def run_simps)

lemma run_b_3:
  "db_delete
     \<lparr>hash_file = \<lparr>bytes = [0, 0, 0, 0, 129, 6, 0, 0, 2, 13, 0, 0, 0, 0, 0, 0,
        0, 0, 0, 0, 0, 0, 0, 0, 3, 0, 0, 0, 0, 0, 0, 0, 3, 0, 0, 0, 0, 0, 0, 0, 2, 0, 0, 0,
        0, 0, 0, 0], pos = 48\<rparr>,
      data_file = \<lparr>bytes = [97, 98, 99, 100, 101], pos = 5\<rparr>,
      deleted_blocks = \<lparr>bytes = [], pos = 0\<rparr>,
      deleted_blocks_array = []\<rparr>
     [45] zeroed =
     (Inr (),
      \<lparr>hash_file = \<lparr>bytes = [0, 0, 0, 0, 0, 0, 0, 0, 2, 13, 0, 0, 0, 0, 0, 0,
         0, 0, 0, 0, 0, 0, 0, 0, 3, 0, 0, 0, 0, 0, 0, 0, 253, 255, 255, 255, 1, 0, 0, 0, 2,
         0, 0, 0, 0, 0, 0, 0], pos = 48\<rparr>,
        data_file = \<lparr>bytes = [], pos = 0\<rparr>,
        deleted_blocks = \<lparr>bytes = [], pos = 0\<rparr>,
        deleted_blocks_array = [0]\<rparr>)"
  by (simp add: db_delete_def run_simps)

lemma run_c_1:
  "db_put
     \<lparr>hash_file = \<lparr>bytes = [], pos = 0\<rparr>,
      data_file = \<lparr>bytes = [], pos = 0\<rparr>,
      deleted_blocks = \<lparr>bytes = [], pos = 0\<rparr>,
      deleted_blocks_array = []\<rparr>
     [90] [97, 98, 99] 0 zeroed =
     (Inr (),
      \<lparr>hash_file = \<lparr>bytes = [0, 0, 0, 0, 0, 0, 0, 0, 2, 13, 0, 0, 0, 0, 0, 0,
         0, 0, 0, 0, 0, 0, 0, 0, 0, 0, 0, 0, 0, 0, 0, 0, 0, 0, 0, 0, 0, 0, 0, 0, 3, 0, 0, 0,
         0, 0, 0, 0], pos = 48\<rparr>,
        data_file = \<lparr>bytes = [97, 98, 99], pos = 3\<rparr>,
        deleted_blocks = \<lparr>bytes = [], pos = 0\<rparr>,
        deleted_blocks_array = []\<rparr>)"
  by (simp add: db_put_def db_delete_def run_simps)

lemma run_c_2:
  "db_put
     \<lparr>hash_file = \<lparr>bytes = [0, 0, 0, 0, 0, 0, 0, 0, 2, 13, 0, 0, 0, 0, 0, 0,
        0, 0, 0, 0, 0, 0, 0, 0, 0, 0, 0, 0, 0, 0, 0, 0, 0, 0, 0, 0, 0, 0, 0, 0, 3, 0, 0, 0,
        0, 0, 0, 0], pos = 48\<rparr>,
      data_file = \<lparr>bytes = [97, 98, 99], pos = 3\<rparr>,
      deleted_blocks = \<lparr>bytes = [], pos = 0\<rparr>,
      deleted_blocks_array = []\<rparr>
     [45] [100, 101] 0 zeroed =
     (Inr (),
      \<lparr>hash_file = \<lparr>bytes = [0, 0, 0, 0, 129, 6, 0, 0, 2, 13, 0, 0, 0, 0, 0,
         0, 3, 0, 0, 0, 0, 0, 0, 0, 2, 0, 0, 0, 0, 0, 0, 0, 0, 0, 0, 0, 0, 0, 0, 0, 3, 0, 0,
         0, 0, 0, 0, 0], pos = 32\<rparr>,
        data_file = \<lparr>bytes = [97, 98, 99, 100, 101], pos = 5\<rparr>,
        deleted_blocks = \<lparr>bytes = [], pos = 0\<rparr>,
        deleted_blocks_array = []\<rparr>)"
  by (simp add: db_put_def db_delete_def run_simps)

lemma run_c_3:
  "db_delete
     \<lparr>hash_file = \<lparr>bytes = [0, 0, 0, 0, 129, 6, 0, 0, 2, 13, 0, 0, 0, 0, 0, 0,
        3, 0, 0, 0, 0, 0, 0, 0, 2, 0, 0, 0, 0, 0, 0, 0, 0, 0, 0, 0, 0, 0, 0, 0, 3, 0, 0, 0,
        0, 0, 0, 0], pos = 32\<rparr>,
      data_file = \<lparr>bytes = [97, 98, 99, 100, 101], pos = 5\<rparr>,
      deleted_blocks = \<lparr>bytes = [], pos = 0\<rparr>,
      deleted_blocks_array = []\<rparr>
     [45] zeroed =
     (Inr (),
      \<lparr>hash_file = \<lparr>bytes = [0, 0, 0, 0, 0, 0, 0, 0, 2, 13, 0, 0, 254, 255,
         255, 255, 2, 0, 0, 0, 0, 0, 0, 0, 2, 0, 0, 0, 0, 0, 0, 0, 0, 0, 0, 0, 0, 0, 0, 0,
         3, 0, 0, 0, 0, 0, 0, 0], pos = 48\<rparr>,
        data_file = \<lparr>bytes = [97, 98, 99], pos = 3\<rparr>,
        deleted_blocks = \<lparr>bytes = [], pos = 0\<rparr>,
        deleted_blocks_array = [3]\<rparr>)"
  by (simp add: db_delete_def run_simps)

lemma run_r_1:
  "db_put
     \<lparr>hash_file = \<lparr>bytes = [0, 0, 0, 0, 0, 0, 0, 0, 2, 13, 0, 0, 254, 255,
        255, 255, 2, 0, 0, 0, 0, 0, 0, 0, 2, 0, 0, 0, 0, 0, 0, 0, 0, 0, 0, 0, 0, 0, 0, 0, 3,
        0, 0, 0, 0, 0, 0, 0], pos = 0\<rparr>,
      data_file = \<lparr>bytes = [97, 98, 99], pos = 0\<rparr>,
      deleted_blocks = \<lparr>bytes = [3, 0, 0, 0], pos = 4\<rparr>,
      deleted_blocks_array = [3]\<rparr>
     [52] [120] 0 zeroed =
     (Inr (),
      \<lparr>hash_file = \<lparr>bytes = [0, 0, 0, 0, 0, 0, 0, 0, 2, 13, 0, 0, 254, 255,
         255, 255, 132, 7, 0, 0, 0, 0, 0, 0, 2, 0, 0, 0, 0, 0, 0, 0, 0, 0, 0, 0, 0, 0, 0, 0,
         3, 0, 0, 0, 0, 0, 0, 0, 0, 0, 0, 0, 0, 0, 0, 0, 0, 0, 0, 0, 0, 0, 0, 0, 3, 0, 0, 0,
         0, 0, 0, 0, 1, 0, 0, 0, 0, 0, 0, 0], pos = 80\<rparr>,
        data_file = \<lparr>bytes = [120, 98, 99], pos = Suc 0\<rparr>,
        deleted_blocks = \<lparr>bytes = [3, 0, 0, 0], pos = 4\<rparr>,
        deleted_blocks_array = []\<rparr>)"
  by (simp add: db_put_def db_delete_def run_simps)

lemma run_d_1:
  "db_put
     \<lparr>hash_file = \<lparr>bytes = [], pos = 0\<rparr>,
      data_file = \<lparr>bytes = [], pos = 0\<rparr>,
      deleted_blocks = \<lparr>bytes = [], pos = 0\<rparr>,
      deleted_blocks_array = []\<rparr>
     [52] [48, 49, 50, 51, 52, 53, 54, 55, 56, 57] 0 zeroed =
     (Inr (),
      \<lparr>hash_file = \<lparr>bytes = [0, 0, 0, 0, 0, 0, 0, 0, 0, 0, 0, 0, 0, 0, 0, 0,
         132, 7, 0, 0, 0, 0, 0, 0, 0, 0, 0, 0, 0, 0, 0, 0, 0, 0, 0, 0, 0, 0, 0, 0, 0, 0, 0,
         0, 0, 0, 0, 0, 0, 0, 0, 0, 0, 0, 0, 0, 0, 0, 0, 0, 0, 0, 0, 0, 0, 0, 0, 0, 0, 0, 0,
         0, 10, 0, 0, 0, 0, 0, 0, 0], pos = 80\<rparr>,
        data_file = \<lparr>bytes = [48, 49, 50, 51, 52, 53, 54, 55, 56, 57], pos =
           10\<rparr>,
        deleted_blocks = \<lparr>bytes = [], pos = 0\<rparr>,
        deleted_blocks_array = []\<rparr>)"
  by (simp add: db_put_def db_delete_def run_simps)

lemma run_d_2:
  "db_put
     \<lparr>hash_file = \<lparr>bytes = [0, 0, 0, 0, 0, 0, 0, 0, 0, 0, 0, 0, 0, 0, 0, 0,
        132, 7, 0, 0, 0, 0, 0, 0, 0, 0, 0, 0, 0, 0, 0, 0, 0, 0, 0, 0, 0, 0, 0, 0, 0, 0, 0,
        0, 0, 0, 0, 0, 0, 0, 0, 0, 0, 0, 0, 0, 0, 0, 0, 0, 0, 0, 0, 0, 0, 0, 0, 0, 0, 0, 0,
        0, 10, 0, 0, 0, 0, 0, 0, 0], pos = 80\<rparr>,
      data_file = \<lparr>bytes = [48, 49, 50, 51, 52, 53, 54, 55, 56, 57], pos =
         10\<rparr>,
      deleted_blocks = \<lparr>bytes = [], pos = 0\<rparr>,
      deleted_blocks_array = []\<rparr>
     [90] [98, 99, 100] 0 zeroed =
     (Inr (),
      \<lparr>hash_file = \<lparr>bytes = [0, 0, 0, 0, 0, 0, 0, 0, 2, 13, 0, 0, 0, 0, 0, 0,
         132, 7, 0, 0, 0, 0, 0, 0, 0, 0, 0, 0, 0, 0, 0, 0, 10, 0, 0, 0, 0, 0, 0, 0, 3, 0, 0,
         0, 0, 0, 0, 0, 0, 0, 0, 0, 0, 0, 0, 0, 0, 0, 0, 0, 0, 0, 0, 0, 0, 0, 0, 0, 0, 0, 0,
         0, 10, 0, 0, 0, 0, 0, 0, 0], pos = 48\<rparr>,
        data_file = \<lparr>bytes = [48, 49, 50, 51, 52, 53, 54, 55, 56, 57, 98, 99, 100],
           pos = 13\<rparr>,
        deleted_blocks = \<lparr>bytes = [], pos = 0\<rparr>,
        deleted_blocks_array = []\<rparr>)"
  by (simp add: db_put_def db_delete_def run_simps)

lemma run_d_3:
  "db_delete
     \<lparr>hash_file = \<lparr>bytes = [0, 0, 0, 0, 0, 0, 0, 0, 2, 13, 0, 0, 0, 0, 0, 0,
        132, 7, 0, 0, 0, 0, 0, 0, 0, 0, 0, 0, 0, 0, 0, 0, 10, 0, 0, 0, 0, 0, 0, 0, 3, 0, 0,
        0, 0, 0, 0, 0, 0, 0, 0, 0, 0, 0, 0, 0, 0, 0, 0, 0, 0, 0, 0, 0, 0, 0, 0, 0, 0, 0, 0,
        0, 10, 0, 0, 0, 0, 0, 0, 0], pos = 48\<rparr>,
      data_file = \<lparr>bytes = [48, 49, 50, 51, 52, 53, 54, 55, 56, 57, 98, 99, 100], pos
         = 13\<rparr>,
      deleted_blocks = \<lparr>bytes = [], pos = 0\<rparr>,
      deleted_blocks_array = []\<rparr>
     [52] zeroed =
     (Inr (),
      \<lparr>hash_file = \<lparr>bytes = [0, 0, 0, 0, 0, 0, 0, 0, 2, 13, 0, 0, 0, 0, 0, 0,
         0, 0, 0, 0, 0, 0, 0, 0, 0, 0, 0, 0, 0, 0, 0, 0, 10, 0, 0, 0, 246, 255, 255, 255, 2,
         0, 0, 0, 0, 0, 0, 0, 0, 0, 0, 0, 0, 0, 0, 0, 0, 0, 0, 0, 0, 0, 0, 0, 0, 0, 0, 0, 0,
         0, 0, 0, 10, 0, 0, 0, 0, 0, 0, 0], pos = 80\<rparr>,
        data_file = \<lparr>bytes = [], pos = 0\<rparr>,
        deleted_blocks = \<lparr>bytes = [], pos = 0\<rparr>,
        deleted_blocks_array = [0]\<rparr>)"
  by (simp add: db_delete_def run_simps)

lemma run_d_4:
  "db_put
     \<lparr>hash_file = \<lparr>bytes = [0, 0, 0, 0, 0, 0, 0, 0, 2, 13, 0, 0, 0, 0, 0, 0,
        0, 0, 0, 0, 0, 0, 0, 0, 0, 0, 0, 0, 0, 0, 0, 0, 10, 0, 0, 0, 246, 255, 255, 255, 2,
        0, 0, 0, 0, 0, 0, 0, 0, 0, 0, 0, 0, 0, 0, 0, 0, 0, 0, 0, 0, 0, 0, 0, 0, 0, 0, 0, 0,
        0, 0, 0, 10, 0, 0, 0, 0, 0, 0, 0], pos = 80\<rparr>,
      data_file = \<lparr>bytes = [], pos = 0\<rparr>,
      deleted_blocks = \<lparr>bytes = [], pos = 0\<rparr>,
      deleted_blocks_array = [0]\<rparr>
     [52] [122, 122] 0 zeroed =
     (Inr (),
      \<lparr>hash_file = \<lparr>bytes = [0, 0, 0, 0, 0, 0, 0, 0, 2, 13, 0, 0, 0, 0, 0, 0,
         132, 7, 0, 0, 0, 0, 0, 0, 0, 0, 0, 0, 0, 0, 0, 0, 10, 0, 0, 0, 246, 255, 255, 255,
         2, 0, 0, 0, 0, 0, 0, 0, 0, 0, 0, 0, 0, 0, 0, 0, 0, 0, 0, 0, 0, 0, 0, 0, 0, 0, 0, 0,
         0, 0, 0, 0, 2, 0, 0, 0, 0, 0, 0, 0], pos = 80\<rparr>,
        data_file = \<lparr>bytes = [122, 122], pos = 2\<rparr>,
        deleted_blocks = \<lparr>bytes = [], pos = 0\<rparr>,
        deleted_blocks_array = []\<rparr>)"
  by (simp add: db_put_def db_delete_def run_simps)

lemma run_e_1:
  "db_put
     \<lparr>hash_file = \<lparr>bytes = [], pos = 0\<rparr>,
      data_file = \<lparr>bytes = [], pos = 0\<rparr>,
      deleted_blocks = \<lparr>bytes = [], pos = 0\<rparr>,
      deleted_blocks_array = []\<rparr>
     [97] [118] 0 zeroed =
     (Inr (),
      \<lparr>hash_file = \<lparr>bytes = [0, 0, 0, 0, 0, 0, 0, 0, 0, 0, 0, 0, 0, 0, 0, 0,
         0, 0, 0, 0, 5, 14, 0, 0, 0, 0, 0, 0, 0, 0, 0, 0, 0, 0, 0, 0, 0, 0, 0, 0, 0, 0, 0,
         0, 0, 0, 0, 0, 0, 0, 0, 0, 0, 0, 0, 0, 0, 0, 0, 0, 0, 0, 0, 0, 0, 0, 0, 0, 0, 0, 0,
         0, 0, 0, 0, 0, 0, 0, 0, 0, 0, 0, 0, 0, 0, 0, 0, 0, 1, 0, 0, 0, 0, 0, 0, 0], pos =
         96\<rparr>,
        data_file = \<lparr>bytes = [118], pos = Suc 0\<rparr>,
        deleted_blocks = \<lparr>bytes = [], pos = 0\<rparr>,
        deleted_blocks_array = []\<rparr>)"
  by (simp add: db_put_def db_delete_def run_simps)

lemma run_f_1:
  "db_put
     \<lparr>hash_file = \<lparr>bytes = [0, 0, 0, 0, 129, 6, 0, 0, 2, 13, 0, 0, 0, 0, 0, 0,
        3, 0, 0, 0, 0, 0, 0, 0, 2, 0, 0, 0, 0, 0, 0, 0, 0, 0, 0, 0, 0, 0, 0, 0, 3, 0, 0, 0,
        0, 0, 0, 0], pos = 32\<rparr>,
      data_file = \<lparr>bytes = [97, 98, 99, 100, 101], pos = 5\<rparr>,
      deleted_blocks = \<lparr>bytes = [], pos = 0\<rparr>,
      deleted_blocks_array = []\<rparr>
     [7] [102, 103] 0 zeroed =
     (Inr (),
      \<lparr>hash_file = \<lparr>bytes = [0, 0, 0, 0, 129, 6, 0, 0, 2, 13, 0, 0, 3, 1, 0,
         0, 3, 0, 0, 0, 0, 0, 0, 0, 2, 0, 0, 0, 0, 0, 0, 0, 0, 0, 0, 0, 0, 0, 0, 0, 3, 0, 0,
         0, 0, 0, 0, 0, 5, 0, 0, 0, 0, 0, 0, 0, 2, 0, 0, 0, 0, 0, 0, 0], pos = 64\<rparr>,
        data_file = \<lparr>bytes = [97, 98, 99, 100, 101, 102, 103], pos = 7\<rparr>,
        deleted_blocks = \<lparr>bytes = [], pos = 0\<rparr>,
        deleted_blocks_array = []\<rparr>)"
  by (simp add: db_put_def db_delete_def run_simps)

lemma run_f_2:
  "db_delete
     \<lparr>hash_file = \<lparr>bytes = [0, 0, 0, 0, 129, 6, 0, 0, 2, 13, 0, 0, 3, 1, 0, 0,
        3, 0, 0, 0, 0, 0, 0, 0, 2, 0, 0, 0, 0, 0, 0, 0, 0, 0, 0, 0, 0, 0, 0, 0, 3, 0, 0, 0,
        0, 0, 0, 0, 5, 0, 0, 0, 0, 0, 0, 0, 2, 0, 0, 0, 0, 0, 0, 0], pos = 64\<rparr>,
      data_file = \<lparr>bytes = [97, 98, 99, 100, 101, 102, 103], pos = 7\<rparr>,
      deleted_blocks = \<lparr>bytes = [], pos = 0\<rparr>,
      deleted_blocks_array = []\<rparr>
     [45] zeroed =
     (Inr (),
      \<lparr>hash_file = \<lparr>bytes = [0, 0, 0, 0, 0, 0, 0, 0, 2, 13, 0, 0, 1, 1, 0, 0,
         3, 0, 0, 0, 0, 0, 0, 0, 2, 0, 0, 0, 0, 0, 0, 0, 0, 0, 0, 0, 0, 0, 0, 0, 3, 0, 0, 0,
         254, 255, 255, 255, 4, 0, 0, 0, 0, 0, 0, 0, 2, 0, 0, 0, 0, 0, 0, 0], pos =
         64\<rparr>,
        data_file = \<lparr>bytes = [97, 98, 99], pos = 3\<rparr>,
        deleted_blocks = \<lparr>bytes = [], pos = 0\<rparr>,
        deleted_blocks_array = [3]\<rparr>)"
  by (simp add: db_delete_def run_simps)

lemma run_g_1:
  "db_put
     \<lparr>hash_file = \<lparr>bytes = [], pos = 0\<rparr>,
      data_file = \<lparr>bytes = [], pos = 0\<rparr>,
      deleted_blocks = \<lparr>bytes = [], pos = 0\<rparr>,
      deleted_blocks_array = []\<rparr>
     [42] [97, 97, 97, 97, 97, 97, 97, 97, 97, 97, 97, 97, 97, 97, 97, 97, 97, 97, 97, 97,
        97, 97, 97, 97, 97, 97, 97, 97, 97, 97, 97, 97, 97, 97, 97, 97, 97, 97, 97, 97, 97,
        97, 97, 97, 97, 97, 97, 97, 97, 97, 97, 97, 97, 97, 97, 97, 97, 97, 97, 97, 97, 97,
        97, 97, 97, 97, 97, 97, 97, 97, 97, 97, 97, 97] 0 zeroed =
     (Inr (),
      \<lparr>hash_file = \<lparr>bytes = [0, 0, 0, 0, 0, 0, 0, 0, 0, 0, 0, 0, 0, 0, 0, 0,
         0, 0, 0, 0, 0, 0, 0, 0, 0, 0, 0, 0, 0, 0, 0, 0, 0, 0, 0, 0, 0, 0, 0, 0, 0, 0, 0, 0,
         0, 0, 0, 0, 0, 0, 0, 0, 0, 0, 0, 0, 0, 0, 0, 0, 0, 0, 0, 0, 0, 0, 0, 0, 0, 0, 0, 0,
         18, 6, 0, 0, 0, 0, 0, 0, 0, 0, 0, 0, 0, 0, 0, 0, 0, 0, 0, 0, 0, 0, 0, 0, 0, 0, 0,
         0, 0, 0, 0, 0, 0, 0, 0, 0, 0, 0, 0, 0, 0, 0, 0, 0, 0, 0, 0, 0, 0, 0, 0, 0, 0, 0, 0,
         0, 0, 0, 0, 0, 0, 0, 0, 0, 0, 0, 0, 0, 0, 0, 0, 0, 0, 0, 0, 0, 0, 0, 0, 0, 0, 0, 0,
         0, 0, 0, 0, 0, 0, 0, 0, 0, 0, 0, 0, 0, 0, 0, 0, 0, 0, 0, 0, 0, 0, 0, 0, 0, 0, 0, 0,
         0, 0, 0, 0, 0, 0, 0, 0, 0, 0, 0, 0, 0, 0, 0, 0, 0, 0, 0, 0, 0, 0, 0, 0, 0, 0, 0, 0,
         0, 0, 0, 0, 0, 0, 0, 0, 0, 0, 0, 0, 0, 0, 0, 0, 0, 0, 0, 0, 0, 0, 0, 0, 0, 0, 0, 0,
         0, 0, 0, 0, 0, 0, 0, 0, 0, 0, 0, 0, 0, 0, 0, 0, 0, 0, 0, 0, 0, 0, 0, 0, 0, 0, 0, 0,
         0, 0, 0, 0, 0, 0, 0, 0, 0, 0, 0, 0, 0, 0, 0, 0, 0, 0, 0, 0, 0, 0, 0, 0, 0, 0, 0, 0,
         0, 74, 0, 0, 0, 0, 0, 0, 0], pos = 304\<rparr>,
        data_file = \<lparr>bytes = [97, 97, 97, 97, 97, 97, 97, 97, 97, 97, 97, 97, 97, 97,
           97, 97, 97, 97, 97, 97, 97, 97, 97, 97, 97, 97, 97, 97, 97, 97, 97, 97, 97, 97,
           97, 97, 97, 97, 97, 97, 97, 97, 97, 97, 97, 97, 97, 97, 97, 97, 97, 97, 97, 97,
           97, 97, 97, 97, 97, 97, 97, 97, 97, 97, 97, 97, 97, 97, 97, 97, 97, 97, 97, 97],
           pos = 74\<rparr>,
        deleted_blocks = \<lparr>bytes = [], pos = 0\<rparr>,
        deleted_blocks_array = []\<rparr>)"
  by (simp add: db_put_def db_delete_def run_simps)

lemma run_g_2:
  "db_delete
     \<lparr>hash_file = \<lparr>bytes = [0, 0, 0, 0, 0, 0, 0, 0, 0, 0, 0, 0, 0, 0, 0, 0, 0,
        0, 0, 0, 0, 0, 0, 0, 0, 0, 0, 0, 0, 0, 0, 0, 0, 0, 0, 0, 0, 0, 0, 0, 0, 0, 0, 0, 0,
        0, 0, 0, 0, 0, 0, 0, 0, 0, 0, 0, 0, 0, 0, 0, 0, 0, 0, 0, 0, 0, 0, 0, 0, 0, 0, 0, 18,
        6, 0, 0, 0, 0, 0, 0, 0, 0, 0, 0, 0, 0, 0, 0, 0, 0, 0, 0, 0, 0, 0, 0, 0, 0, 0, 0, 0,
        0, 0, 0, 0, 0, 0, 0, 0, 0, 0, 0, 0, 0, 0, 0, 0, 0, 0, 0, 0, 0, 0, 0, 0, 0, 0, 0, 0,
        0, 0, 0, 0, 0, 0, 0, 0, 0, 0, 0, 0, 0, 0, 0, 0, 0, 0, 0, 0, 0, 0, 0, 0, 0, 0, 0, 0,
        0, 0, 0, 0, 0, 0, 0, 0, 0, 0, 0, 0, 0, 0, 0, 0, 0, 0, 0, 0, 0, 0, 0, 0, 0, 0, 0, 0,
        0, 0, 0, 0, 0, 0, 0, 0, 0, 0, 0, 0, 0, 0, 0, 0, 0, 0, 0, 0, 0, 0, 0, 0, 0, 0, 0, 0,
        0, 0, 0, 0, 0, 0, 0, 0, 0, 0, 0, 0, 0, 0, 0, 0, 0, 0, 0, 0, 0, 0, 0, 0, 0, 0, 0, 0,
        0, 0, 0, 0, 0, 0, 0, 0, 0, 0, 0, 0, 0, 0, 0, 0, 0, 0, 0, 0, 0, 0, 0, 0, 0, 0, 0, 0,
        0, 0, 0, 0, 0, 0, 0, 0, 0, 0, 0, 0, 0, 0, 0, 0, 0, 0, 0, 0, 0, 0, 0, 0, 0, 0, 0, 74,
        0, 0, 0, 0, 0, 0, 0], pos = 304\<rparr>,
      data_file = \<lparr>bytes = [97, 97, 97, 97, 97, 97, 97, 97, 97, 97, 97, 97, 97, 97,
         97, 97, 97, 97, 97, 97, 97, 97, 97, 97, 97, 97, 97, 97, 97, 97, 97, 97, 97, 97, 97,
         97, 97, 97, 97, 97, 97, 97, 97, 97, 97, 97, 97, 97, 97, 97, 97, 97, 97, 97, 97, 97,
         97, 97, 97, 97, 97, 97, 97, 97, 97, 97, 97, 97, 97, 97, 97, 97, 97, 97], pos =
         74\<rparr>,
      deleted_blocks = \<lparr>bytes = [], pos = 0\<rparr>,
      deleted_blocks_array = []\<rparr>
     [2] zeroed =
     (Inr (),
      \<lparr>hash_file = \<lparr>bytes = [0, 0, 0, 0, 0, 0, 0, 0, 0, 0, 0, 0, 0, 0, 0, 0,
         0, 0, 0, 0, 0, 0, 0, 0, 0, 0, 0, 0, 0, 0, 0, 0, 0, 0, 0, 0, 0, 0, 0, 0, 0, 0, 0, 0,
         0, 0, 0, 0, 0, 0, 0, 0, 0, 0, 0, 0, 0, 0, 0, 0, 0, 0, 0, 0, 0, 0, 0, 0, 0, 0, 0, 0,
         18, 6, 0, 0, 0, 0, 0, 0, 0, 0, 0, 0, 0, 0, 0, 0, 0, 0, 0, 0, 0, 0, 0, 0, 0, 0, 0,
         0, 0, 0, 0, 0, 0, 0, 0, 0, 0, 0, 0, 0, 0, 0, 0, 0, 0, 0, 0, 0, 0, 0, 0, 0, 0, 0, 0,
         0, 0, 0, 0, 0, 0, 0, 0, 0, 0, 0, 0, 0, 0, 0, 0, 0, 0, 0, 0, 0, 0, 0, 0, 0, 0, 0, 0,
         0, 0, 0, 0, 0, 0, 0, 0, 0, 0, 0, 0, 0, 0, 0, 0, 0, 0, 0, 0, 0, 0, 0, 0, 0, 0, 0, 0,
         0, 0, 0, 0, 0, 0, 0, 0, 0, 0, 0, 0, 0, 0, 0, 0, 0, 0, 0, 0, 0, 0, 0, 0, 0, 0, 0, 0,
         0, 0, 0, 0, 0, 0, 0, 0, 0, 0, 0, 0, 0, 0, 0, 0, 0, 0, 0, 0, 0, 0, 0, 0, 0, 0, 0, 0,
         0, 0, 0, 0, 0, 0, 0, 0, 0, 0, 0, 0, 0, 0, 0, 0, 0, 0, 0, 0, 0, 0, 0, 0, 0, 0, 0, 0,
         0, 0, 0, 0, 0, 0, 0, 0, 0, 0, 0, 0, 0, 0, 0, 0, 0, 0, 0, 0, 0, 0, 0, 0, 0, 0, 0, 0,
         0, 0, 0, 0, 0, 0, 0, 0, 0], pos = 304\<rparr>,
        data_file = \<lparr>bytes = [], pos = 0\<rparr>,
        deleted_blocks = \<lparr>bytes = [], pos = 0\<rparr>,
        deleted_blocks_array = [0]\<rparr>)"
  by (simp add: db_delete_def run_simps)

lemma one_record_eq:
  "one_record =
     \<lparr>hash_file = \<lparr>bytes = [0, 0, 0, 0, 129, 6, 0, 0, 0, 0, 0, 0, 0, 0, 0, 0,
        0, 0, 0, 0, 0, 0, 0, 0, 3, 0, 0, 0, 0, 0, 0, 0], pos = 32\<rparr>,
      data_file = \<lparr>bytes = [97, 98, 99], pos = 3\<rparr>,
      deleted_blocks = \<lparr>bytes = [], pos = 0\<rparr>,
      deleted_blocks_array = []\<rparr>"
  by (simp add: one_record_def db_open_no_files run_b_1)

lemma two_records_eq:
  "two_records =
     \<lparr>hash_file = \<lparr>bytes = [0, 0, 0, 0, 129, 6, 0, 0, 2, 13, 0, 0, 0, 0, 0, 0,
        0, 0, 0, 0, 0, 0, 0, 0, 3, 0, 0, 0, 0, 0, 0, 0, 3, 0, 0, 0, 0, 0, 0, 0, 2, 0, 0, 0,
        0, 0, 0, 0], pos = 48\<rparr>,
      data_file = \<lparr>bytes = [97, 98, 99, 100, 101], pos = 5\<rparr>,
      deleted_blocks = \<lparr>bytes = [], pos = 0\<rparr>,
      deleted_blocks_array = []\<rparr>"
  by (simp add: two_records_def one_record_eq run_b_2)

lemma two_live_eq:
  "two_live =
     \<lparr>hash_file = \<lparr>bytes = [0, 0, 0, 0, 129, 6, 0, 0, 2, 13, 0, 0, 0, 0, 0, 0,
        3, 0, 0, 0, 0, 0, 0, 0, 2, 0, 0, 0, 0, 0, 0, 0, 0, 0, 0, 0, 0, 0, 0, 0, 3, 0, 0, 0,
        0, 0, 0, 0], pos = 32\<rparr>,
      data_file = \<lparr>bytes = [97, 98, 99, 100, 101], pos = 5\<rparr>,
      deleted_blocks = \<lparr>bytes = [], pos = 0\<rparr>,
      deleted_blocks_array = []\<rparr>"
  by (simp add: two_live_def db_open_no_files run_c_1 run_c_2)

lemma one_freed_eq:
  "one_freed =
     \<lparr>hash_file = \<lparr>bytes = [0, 0, 0, 0, 0, 0, 0, 0, 2, 13, 0, 0, 254, 255,
        255, 255, 2, 0, 0, 0, 0, 0, 0, 0, 2, 0, 0, 0, 0, 0, 0, 0, 0, 0, 0, 0, 0, 0, 0, 0, 3,
        0, 0, 0, 0, 0, 0, 0], pos = 48\<rparr>,
      data_file = \<lparr>bytes = [97, 98, 99], pos = 3\<rparr>,
      deleted_blocks = \<lparr>bytes = [], pos = 0\<rparr>,
      deleted_blocks_array = [3]\<rparr>"
  by (simp add: one_freed_def two_live_eq run_c_3)

lemma reopened_eq:
  "reopened =
     \<lparr>hash_file = \<lparr>bytes = [0, 0, 0, 0, 0, 0, 0, 0, 2, 13, 0, 0, 254, 255,
        255, 255, 2, 0, 0, 0, 0, 0, 0, 0, 2, 0, 0, 0, 0, 0, 0, 0, 0, 0, 0, 0, 0, 0, 0, 0, 3,
        0, 0, 0, 0, 0, 0, 0], pos = 0\<rparr>,
      data_file = \<lparr>bytes = [97, 98, 99], pos = 0\<rparr>,
      deleted_blocks = \<lparr>bytes = [3, 0, 0, 0], pos = 4\<rparr>,
      deleted_blocks_array = [3]\<rparr>"
  by (simp add: reopened_def one_freed_eq db_close_def encode_deleted_blocks_array_def
        db_open_def fopen_def decode_deleted_blocks_array_def run_simps)

lemma compacted_eq:
  "compacted =
     \<lparr>hash_file = \<lparr>bytes = [0, 0, 0, 0, 0, 0, 0, 0, 2, 13, 0, 0, 0, 0, 0, 0,
        132, 7, 0, 0, 0, 0, 0, 0, 0, 0, 0, 0, 0, 0, 0, 0, 10, 0, 0, 0, 246, 255, 255, 255,
        2, 0, 0, 0, 0, 0, 0, 0, 0, 0, 0, 0, 0, 0, 0, 0, 0, 0, 0, 0, 0, 0, 0, 0, 0, 0, 0, 0,
        0, 0, 0, 0, 2, 0, 0, 0, 0, 0, 0, 0], pos = 80\<rparr>,
      data_file = \<lparr>bytes = [122, 122], pos = 2\<rparr>,
      deleted_blocks = \<lparr>bytes = [], pos = 0\<rparr>,
      deleted_blocks_array = []\<rparr>"
  by (simp add: compacted_def db_open_no_files run_d_1 run_d_2 run_d_3 run_d_4)

lemma three_live_eq:
  "three_live =
     \<lparr>hash_file = \<lparr>bytes = [0, 0, 0, 0, 129, 6, 0, 0, 2, 13, 0, 0, 3, 1, 0, 0,
        3, 0, 0, 0, 0, 0, 0, 0, 2, 0, 0, 0, 0, 0, 0, 0, 0, 0, 0, 0, 0, 0, 0, 0, 3, 0, 0, 0,
        0, 0, 0, 0, 5, 0, 0, 0, 0, 0, 0, 0, 2, 0, 0, 0, 0, 0, 0, 0], pos = 64\<rparr>,
      data_file = \<lparr>bytes = [97, 98, 99, 100, 101, 102, 103], pos = 7\<rparr>,
      deleted_blocks = \<lparr>bytes = [], pos = 0\<rparr>,
      deleted_blocks_array = []\<rparr>"
  by (simp add: three_live_def two_live_eq run_f_1)

lemma long_record_eq:
  "long_record =
     \<lparr>hash_file = \<lparr>bytes = [0, 0, 0, 0, 0, 0, 0, 0, 0, 0, 0, 0, 0, 0, 0, 0, 0,
        0, 0, 0, 0, 0, 0, 0, 0, 0, 0, 0, 0, 0, 0, 0, 0, 0, 0, 0, 0, 0, 0, 0, 0, 0, 0, 0, 0,
        0, 0, 0, 0, 0, 0, 0, 0, 0, 0, 0, 0, 0, 0, 0, 0, 0, 0, 0, 0, 0, 0, 0, 0, 0, 0, 0, 18,
        6, 0, 0, 0, 0, 0, 0, 0, 0, 0, 0, 0, 0, 0, 0, 0, 0, 0, 0, 0, 0, 0, 0, 0, 0, 0, 0, 0,
        0, 0, 0, 0, 0, 0, 0, 0, 0, 0, 0, 0, 0, 0, 0, 0, 0, 0, 0, 0, 0, 0, 0, 0, 0, 0, 0, 0,
        0, 0, 0, 0, 0, 0, 0, 0, 0, 0, 0, 0, 0, 0, 0, 0, 0, 0, 0, 0, 0, 0, 0, 0, 0, 0, 0, 0,
        0, 0, 0, 0, 0, 0, 0, 0, 0, 0, 0, 0, 0, 0, 0, 0, 0, 0, 0, 0, 0, 0, 0, 0, 0, 0, 0, 0,
        0, 0, 0, 0, 0, 0, 0, 0, 0, 0, 0, 0, 0, 0, 0, 0, 0, 0, 0, 0, 0, 0, 0, 0, 0, 0, 0, 0,
        0, 0, 0, 0, 0, 0, 0, 0, 0, 0, 0, 0, 0, 0, 0, 0, 0, 0, 0, 0, 0, 0, 0, 0, 0, 0, 0, 0,
        0, 0, 0, 0, 0, 0, 0, 0, 0, 0, 0, 0, 0, 0, 0, 0, 0, 0, 0, 0, 0, 0, 0, 0, 0, 0, 0, 0,
        0, 0, 0, 0, 0, 0, 0, 0, 0, 0, 0, 0, 0, 0, 0, 0, 0, 0, 0, 0, 0, 0, 0, 0, 0, 0, 0, 74,
        0, 0, 0, 0, 0, 0, 0], pos = 304\<rparr>,
      data_file = \<lparr>bytes = [97, 97, 97, 97, 97, 97, 97, 97, 97, 97, 97, 97, 97, 97,
         97, 97, 97, 97, 97, 97, 97, 97, 97, 97, 97, 97, 97, 97, 97, 97, 97, 97, 97, 97, 97,
         97, 97, 97, 97, 97, 97, 97, 97, 97, 97, 97, 97, 97, 97, 97, 97, 97, 97, 97, 97, 97,
         97, 97, 97, 97, 97, 97, 97, 97, 97, 97, 97, 97, 97, 97, 97, 97, 97, 97], pos =
         74\<rparr>,
      deleted_blocks = \<lparr>bytes = [], pos = 0\<rparr>,
      deleted_blocks_array = []\<rparr>"
  by (simp add: long_record_def db_open_no_files replicate_numeral run_g_1)

subsection \<open>The claims on the concrete runs\<close>

lemmas get_simps = db_get_def run_simps

text \<open>
  C1 (a put followed by a get of the same key returns the value) on the code: the key
  \<^verbatim>\<open>"hx"\<close> has bucket 0, where the 8 bytes of the offset are written over the 4 bytes
  of the hash, and \<^verbatim>\<open>db_get\<close> right after \<^verbatim>\<open>db_put\<close> of \<^verbatim>\<open>"abc"\<close> on a new database
  returns \<open>NotFound\<close>.
\<close>

theorem put_then_get_bucket_0:
  "hash_function [104, 120] mod 128 = 0 \<and>
   fst (db_get (calls (db_open no_files) [Put [104, 120] [97, 98, 99]]) [104, 120]
          [0, 0, 0, 0] zeroed) = Inl NotFound"
  by (simp add: db_open_no_files run_a_1 get_simps)

text \<open>
  C2 (closing and reopening reproduces the results of \<^verbatim>\<open>db_get\<close>) on the code: after
  the calls of \<open>compacted\<close> the offset recorded for \<^verbatim>\<open>"Z"\<close> is negative as a
  \<^verbatim>\<open>long\<close>, \<^verbatim>\<open>fseek\<close> fails and \<^verbatim>\<open>db_get\<close> reads where the stream stands: at the end
  of the data file before the close (nothing, the buffer stays), at its start after
  the reopening (the two bytes of \<^verbatim>\<open>"zz"\<close>).
\<close>

theorem reopen_changes_get:
  "fst (db_get compacted [90] [0, 0, 0, 0] zeroed) = Inr ([0, 0, 0, 0], 2) \<and>
   fst (db_get (db_open (db_close compacted)) [90] [0, 0, 0, 0] zeroed)
     = Inr ([122, 122, 0, 0], 2)"
  by (simp add: compacted_eq db_close_def encode_deleted_blocks_array_def db_open_def
        fopen_def decode_deleted_blocks_array_def get_simps)

text \<open>
  C3 (a delete shifts the later bytes left and shrinks the data file by the length of
  the record) on the code: deleting \<^verbatim>\<open>"-"\<close> (offset 0, length 3) from the data file
  \<^verbatim>\<open>"abcde"\<close> leaves an empty data file, not \<^verbatim>\<open>"de"\<close>, and the offset 3 recorded for
  \<^verbatim>\<open>"Z"\<close> becomes 8589934589, not 0.
\<close>

theorem delete_truncates_data_file:
  "bytes (data_file two_records) = [97, 98, 99, 100, 101] \<and>
   bytes (data_file (calls two_records [Delete [45]])) = [] \<and>
   take 8 (drop 32 (bytes (hash_file two_records))) = [3, 0, 0, 0, 0, 0, 0, 0] \<and>
   take 8 (drop 32 (bytes (hash_file (calls two_records [Delete [45]]))))
     = [253, 255, 255, 255, 1, 0, 0, 0]"
  by (simp add: two_records_eq run_b_3)

text \<open>
  C4 (bucket \<open>i\<close> is one 20-byte record at byte offset \<open>20 * i\<close>) on the code: for the
  key \<^verbatim>\<open>"-"\<close>, of hash 1665 and bucket 1, \<^verbatim>\<open>db_put\<close> leaves a directory file of 32
  bytes with the hash at byte 4, the offset at byte 16 and the length at byte 24.
\<close>

theorem put_directory_bytes:
  "hash_function [45] = 1665 \<and>
   bytes (hash_file one_record) =
     [0, 0, 0, 0, 129, 6, 0, 0, 0, 0, 0, 0, 0, 0, 0, 0,
      0, 0, 0, 0, 0, 0, 0, 0, 3, 0, 0, 0, 0, 0, 0, 0]"
  by (simp add: one_record_eq hash_function_def prime2_def)

text \<open>
  C6 (with a non-empty free list the value is written at the popped offset) on the
  code: \<open>reopened\<close> is a database closed and opened again with the free list \<open>[3]\<close>
  and the data file \<^verbatim>\<open>"abc"\<close>, its stream at 0. The put of \<^verbatim>\<open>"x"\<close> under \<^verbatim>\<open>"4"\<close> records
  the popped offset 3 in the directory (bucket 4, byte 64) and writes the byte at
  offset 0, over the value of \<^verbatim>\<open>"Z"\<close>.
\<close>

theorem put_reuse_position:
  "deleted_blocks_array reopened = [3] \<and>
   data_file reopened = \<lparr>bytes = [97, 98, 99], pos = 0\<rparr> \<and>
   bytes (data_file (calls reopened [Put [52] [120]])) = [120, 98, 99] \<and>
   take 8 (drop 64 (bytes (hash_file (calls reopened [Put [52] [120]]))))
     = [3, 0, 0, 0, 0, 0, 0, 0]"
  by (simp add: reopened_eq run_r_1)

text \<open>
  Two keys with the same 32-bit hash are not told apart: after \<^verbatim>\<open>db_put\<close> of the key
  \<^verbatim>\<open>"a"\<close> on a new database, the key of the two bytes 0 and \<^verbatim>\<open>"a"\<close>, which has the same
  hash, is found with the value of \<^verbatim>\<open>"a"\<close>.
\<close>

lemma same_hash_found:
  "hash_function [0, 97] = hash_function [97] \<and>
   fst (db_get (calls (db_open no_files) [Put [97] [118]]) [0, 97] [0] zeroed)
     = Inr ([118], 1)"
  by (simp add: db_open_no_files run_e_1 get_simps)

text \<open>
  C8 (\<^verbatim>\<open>db_get\<close> of a key that was never put returns the \<open>NotFound\<close> outcome) on the
  code: \<open>long_record\<close> is a new database after one \<^verbatim>\<open>db_put\<close>, of the key 42 (hash
  1554, bucket 18) with a value of 74 bytes. The length 74 is written at byte
  \<open>16 * 18 + 8 = 296\<close> of the directory, which is byte \<open>4 * 74\<close>, where the hash of
  bucket 74 is read. The key 2 has hash 74 and bucket 74: it was never put, its hash is
  the hash of no key that was put, and \<^verbatim>\<open>db_get\<close> does not return \<open>NotFound\<close> for it,
  whatever the uninitialised variables \<open>u\<close> hold and whatever the buffer \<open>v\<close>; with
  zeros in them it returns 0 and the length 0.
\<close>

theorem get_never_put_found:
  "hash_function [42] = 1554 \<and> hash_function [2] = 74 \<and>
   fst (db_get long_record [2] v u) \<noteq> Inl NotFound \<and>
   fst (db_get long_record [2] [] zeroed) = Inr ([], 0)"
proof -
  have f: "fst (db_get long_record [2] v u) \<noteq> Inl NotFound"
    by (simp add: db_get_NotFound_iff long_record_eq run_simps)
  show ?thesis
    using f by (simp add: long_record_eq get_simps)
qed

text \<open>
  C9 (\<^verbatim>\<open>db_delete\<close> of an absent key returns the not-found outcome and changes
  nothing) on the code: the key 2 was never put into \<open>long_record\<close> and has the hash
  of no key that was put, yet \<^verbatim>\<open>db_delete\<close> of it returns 0 and appends an element
  to the empty free list, whatever the uninitialised variables \<open>u\<close> hold; with zeros
  in them the data file of 74 bytes is left empty and the free list is \<open>[0]\<close>.
\<close>

theorem delete_never_put_succeeds:
  "hash_function [42] = 1554 \<and> hash_function [2] = 74 \<and>
   deleted_blocks_array long_record = [] \<and>
   bytes (data_file long_record) = replicate 74 97 \<and>
   fst (db_delete long_record [2] u) = Inr () \<and>
   length (deleted_blocks_array (snd (db_delete long_record [2] u))) = 1 \<and>
   bytes (data_file (calls long_record [Delete [2]])) = [] \<and>
   deleted_blocks_array (calls long_record [Delete [2]]) = [0]"
proof -
  have r: "fst (db_delete long_record [2] u) = Inr ()"
    by (simp add: db_delete_result long_record_eq run_simps)
  have l: "length (deleted_blocks_array (snd (db_delete long_record [2] u))) = 1"
    using r by (simp add: db_delete_array_length long_record_eq)
  have z: "bytes (data_file (calls long_record [Delete [2]])) = [] \<and>
           deleted_blocks_array (calls long_record [Delete [2]]) = [0]"
    by (simp add: long_record_eq run_g_2)
  have s: "hash_function [42] = 1554 \<and> hash_function [2] = 74 \<and>
           deleted_blocks_array long_record = [] \<and>
           bytes (data_file long_record) = replicate 74 97"
    by (simp add: long_record_eq hash_function_def prime2_def replicate_numeral)
  show ?thesis
    using r l z s by blast
qed

text \<open>
  C7 (after deleting \<open>N\<close> keys the free list holds \<open>N\<close> offsets) on the code:
  \<open>three_live\<close> holds the keys \<^verbatim>\<open>"Z"\<close>, \<^verbatim>\<open>"-"\<close> and 7, of three different hashes in the
  buckets 2, 1 and 3, and \<^verbatim>\<open>db_get\<close> returns the value of each. \<^verbatim>\<open>db_delete\<close> of
  \<^verbatim>\<open>"-"\<close> returns 0; its loop over the directory reads the hash 259 of bucket 3 as the
  low half of an offset and writes 257 in its place. \<^verbatim>\<open>db_delete\<close> of the key 7 then
  returns \<open>-1\<close>, whatever its uninitialised variables \<open>u\<close> hold, and after the two
  deletes the free list holds one element.
\<close>

theorem delete_two_keys_frees_one:
  "hash_function [90] = 3330 \<and> hash_function [45] = 1665 \<and> hash_function [7] = 259 \<and>
   deleted_blocks_array three_live = [] \<and>
   fst (db_get three_live [90] [0, 0, 0] zeroed) = Inr ([97, 98, 99], 3) \<and>
   fst (db_get three_live [45] [0, 0] zeroed) = Inr ([100, 101], 2) \<and>
   fst (db_get three_live [7] [0, 0] zeroed) = Inr ([102, 103], 2) \<and>
   fst (db_delete three_live [45] zeroed) = Inr () \<and>
   take 4 (drop 12 (bytes (hash_file (calls three_live [Delete [45]])))) = [1, 1, 0, 0] \<and>
   fst (db_delete (calls three_live [Delete [45]]) [7] u) = Inl NotFound \<and>
   deleted_blocks_array (calls three_live [Delete [45], Delete [7]]) = [3]"
proof -
  have h: "hash_function [90] = 3330 \<and> hash_function [45] = 1665 \<and> hash_function [7] = 259"
    by (simp add: hash_function_def prime2_def)
  have g: "deleted_blocks_array three_live = [] \<and>
           fst (db_get three_live [90] [0, 0, 0] zeroed) = Inr ([97, 98, 99], 3) \<and>
           fst (db_get three_live [45] [0, 0] zeroed) = Inr ([100, 101], 2) \<and>
           fst (db_get three_live [7] [0, 0] zeroed) = Inr ([102, 103], 2)"
    by (simp add: three_live_eq get_simps)
  have d: "fst (db_delete three_live [45] zeroed) = Inr () \<and>
           take 4 (drop 12 (bytes (hash_file (calls three_live [Delete [45]])))) = [1, 1, 0, 0]"
    by (simp add: three_live_eq run_f_2)
  have n: "fst (db_delete (calls three_live [Delete [45]]) [7] u) = Inl NotFound"
    by (simp add: db_delete_result three_live_eq run_f_2 run_simps)
  have a: "deleted_blocks_array (calls three_live [Delete [45], Delete [7]]) = [3]"
    by (simp add: three_live_eq run_f_2 db_delete_def run_simps)
  show ?thesis
    using h g d n a by blast
qed


end
